theory Spec2Isabelle
  imports Main "HOL-Library.Sublist"
begin

section \<open>The platform: JavaScript values, paths and the file system\<close>

subsection \<open>Values\<close>

text \<open>
  The values \<^verbatim>\<open>JSON.parse\<close> can return, and \<^verbatim>\<open>undefined\<close>, which a read of an absent
  property returns. A number is carried as its decimal rendering (what \<^verbatim>\<open>String(n)\<close>
  gives): the scanner only stores numbers and turns them into property keys. An object is
  the list of its own properties.
\<close>

datatype jsval =
    Undefined
  | Null
  | Bool bool
  | Num string
  | Str string
  | Arr "jsval list"
  | Obj "(string \<times> jsval) list"

text \<open>What a rejected promise or a \<^verbatim>\<open>throw\<close> carries.\<close>

datatype error =
    ENOENT
  | EACCES
  | EISDIR
  | EINVAL
  | SyntaxError
  | TypeError
  | OtherError string

text \<open>
  \<^verbatim>\<open>v.k\<close> for a key \<open>k\<close> that no prototype defines (\<^verbatim>\<open>name\<close>, \<^verbatim>\<open>version\<close>,
  \<^verbatim>\<open>canonical\<close>, \<^verbatim>\<open>fhirVersions\<close>): reading a property of \<^verbatim>\<open>null\<close> or
  \<^verbatim>\<open>undefined\<close> throws a TypeError, an object gives its own property or
  \<^verbatim>\<open>undefined\<close>, every other value gives \<^verbatim>\<open>undefined\<close>.
\<close>

fun get_prop :: "jsval \<Rightarrow> string \<Rightarrow> error + jsval" where
  "get_prop Undefined k = Inl TypeError"
| "get_prop Null k = Inl TypeError"
| "get_prop (Obj kvs) k = (case map_of kvs k of None \<Rightarrow> Inr Undefined | Some v \<Rightarrow> Inr v)"
| "get_prop v k = Inr Undefined"

fun join_with :: "string \<Rightarrow> string list \<Rightarrow> string" where
  "join_with sep [] = []"
| "join_with sep [s] = s"
| "join_with sep (s # t # ss) = s @ sep @ join_with sep (t # ss)"

text \<open>
  \<^verbatim>\<open>obj[v] = ...\<close> turns the key \<open>v\<close> into a string first (ToPropertyKey, which is
  ToString on these values). An absent name becomes the key \<^verbatim>\<open>"undefined"\<close>. An object
  is asked for its \<^verbatim>\<open>toString\<close>: a parsed object without an own \<^verbatim>\<open>toString\<close> key
  inherits the one that gives \<^verbatim>\<open>"[object Object]"\<close>; with an own \<^verbatim>\<open>toString\<close> key, whose
  value no JSON text can make callable, the conversion falls back on \<^verbatim>\<open>valueOf\<close>, which
  is either an own key of the same kind or the inherited one that returns the object, and
  throws a TypeError. An array is the comma-joined renderings of its elements, with
  \<^verbatim>\<open>null\<close> and \<^verbatim>\<open>undefined\<close> elements rendered empty, and throws when the rendering of
  an element does.
\<close>

fun ToString :: "jsval \<Rightarrow> error + string"
  and ToString_elements :: "jsval list \<Rightarrow> error + string list" where
  "ToString Undefined = Inr ''undefined''"
| "ToString Null = Inr ''null''"
| "ToString (Bool b) = Inr (if b then ''true'' else ''false'')"
| "ToString (Num s) = Inr s"
| "ToString (Str s) = Inr s"
| "ToString (Arr vs) =
     (case ToString_elements vs of Inl e \<Rightarrow> Inl e | Inr ss \<Rightarrow> Inr (join_with '','' ss))"
| "ToString (Obj kvs) =
     (if map_of kvs ''toString'' \<noteq> None then Inl TypeError else Inr ''[object Object]'')"
| "ToString_elements [] = Inr []"
| "ToString_elements (v # vs) =
     (case (if v = Undefined \<or> v = Null then Inr [] else ToString v) of
        Inl e \<Rightarrow> Inl e
      | Inr s \<Rightarrow> (case ToString_elements vs of Inl e \<Rightarrow> Inl e | Inr ss \<Rightarrow> Inr (s # ss)))"

subsection \<open>Paths\<close>

text \<open>
  \<^verbatim>\<open>path.join\<close> of two segments on a POSIX platform: the non-empty segments are joined
  with a slash and the result is normalised (empty and \<^verbatim>\<open>.\<close> components dropped,
  \<^verbatim>\<open>..\<close> resolved against the component before it, a leading and a trailing slash
  kept).
\<close>

fun split_slash :: "string \<Rightarrow> string list" where
  "split_slash [] = [[]]"
| "split_slash (c # cs) =
     (if c = CHR ''/'' then [] # split_slash cs
      else (case split_slash cs of [] \<Rightarrow> [[c]] | s # ss \<Rightarrow> (c # s) # ss))"

definition normalize_step :: "bool \<Rightarrow> string list \<Rightarrow> string \<Rightarrow> string list" where
  "normalize_step allowAboveRoot res seg =
     (if seg = [] \<or> seg = ''.'' then res
      else if seg = ''..'' then
        (if res \<noteq> [] \<and> last res \<noteq> ''..'' then butlast res
         else if allowAboveRoot then res @ [''..''] else res)
      else res @ [seg])"

definition normalizeString :: "string \<Rightarrow> bool \<Rightarrow> string" where
  "normalizeString p allowAboveRoot =
     join_with ''/'' (foldl (normalize_step allowAboveRoot) [] (split_slash p))"

definition normalize :: "string \<Rightarrow> string" where
  "normalize p =
     (if p = [] then ''.''
      else
        let isAbsolute = (hd p = CHR ''/'');
            trailingSeparator = (last p = CHR ''/'');
            q = normalizeString p (\<not> isAbsolute)
        in if q = [] then (if isAbsolute then ''/'' else if trailingSeparator then ''./'' else ''.'')
           else (if isAbsolute then ''/'' else []) @ q @ (if trailingSeparator then ''/'' else []))"

definition path_join :: "string \<Rightarrow> string \<Rightarrow> string" where
  "path_join a b =
     (let joined = (if a = [] then b else if b = [] then a else a @ ''/'' @ b)
      in if joined = [] then ''.'' else normalize joined)"

subsection \<open>The file system\<close>

text \<open>
  The program observes the file system only through \<^verbatim>\<open>fs.readFile\<close> and
  \<^verbatim>\<open>fs.access\<close> at the path strings it passes, so a file system is what those two
  calls find at each path string. Nothing is assumed about how the answers at different
  paths relate.
\<close>

datatype fs_entry =
    NoEntry
  | NoPermission
  | Directory
  | RegularFile string

type_synonym filesystem = "string \<Rightarrow> fs_entry"

text \<open>A path holding a NUL character is rejected as an invalid argument before any system
  call; the empty path names nothing.\<close>

definition fs_access :: "filesystem \<Rightarrow> string \<Rightarrow> error + unit" where
  "fs_access fs p =
     (if CHR 0x00 \<in> set p then Inl EINVAL
      else if p = [] then Inl ENOENT
      else (case fs p of
              NoEntry \<Rightarrow> Inl ENOENT
            | NoPermission \<Rightarrow> Inl EACCES
            | Directory \<Rightarrow> Inr ()
            | RegularFile _ \<Rightarrow> Inr ()))"

definition fs_readFile :: "filesystem \<Rightarrow> string \<Rightarrow> error + string" where
  "fs_readFile fs p =
     (if CHR 0x00 \<in> set p then Inl EINVAL
      else if p = [] then Inl ENOENT
      else (case fs p of
              NoEntry \<Rightarrow> Inl ENOENT
            | NoPermission \<Rightarrow> Inl EACCES
            | Directory \<Rightarrow> Inl EISDIR
            | RegularFile text \<Rightarrow> Inr text))"

section \<open>The data model\<close>

text \<open>
  \<^verbatim>\<open>PackageInfo\<close> as \<^verbatim>\<open>scanPackage\<close> builds it: the manifest is not validated, so
  every field taken from it holds whatever value the manifest has there. The field
  \<^verbatim>\<open>id\<close> is \<open>pkg_id\<close> here.
\<close>

record PackageId =
  name :: jsval
  version :: jsval

record PackageInfo =
  pkg_id :: PackageId
  path :: string
  canonical :: jsval
  fhirVersions :: jsval

text \<open>
  Modelled from the spec: the resource descriptors of an index manifest, whose type is
  declared in \<^verbatim>\<open>src/types\<close>, not among the sources. The spec, section 6: resource
  descriptors with optional \<^verbatim>\<open>url\<close>, \<^verbatim>\<open>type\<close>, \<^verbatim>\<open>kind\<close>, \<^verbatim>\<open>version\<close> string fields.
  The resource's \<^verbatim>\<open>version\<close> is \<open>resource_version\<close> here.
\<close>

record Descriptor =
  url :: "string option"
  type :: "string option"
  kind :: "string option"
  resource_version :: "string option"

text \<open>
  Modelled from the spec: \<^verbatim>\<open>IndexEntry\<close>, declared in \<^verbatim>\<open>src/types\<close>, not among the
  sources. The spec, section 3: the fields of the descriptor and \<^verbatim>\<open>package\<close>, a
  back-reference to the owning PackageInfo.
\<close>

record IndexEntry = Descriptor +
  package :: "PackageInfo option"

text \<open>
  Modelled from the spec: \<^verbatim>\<open>ExtendedCache\<close>, declared in \<^verbatim>\<open>src/cache/core\<close>, not among
  the sources. The spec, section 3: a mapping from package name to PackageInfo, which is
  how line 27 uses \<^verbatim>\<open>cache.packages\<close>, and an ordered sequence of entries, insertion
  order preserved. A property key is a string; the keys that a plain object treats
  specially (\<^verbatim>\<open>__proto__\<close>) are not modelled.
\<close>

record ExtendedCache =
  packages :: "string \<rightharpoonup> PackageInfo"
  entries :: "IndexEntry list"

text \<open>An asynchronous call on the cache: how the promise settles, and the cache as the call
  leaves it.\<close>

type_synonym outcome = "(error + unit) \<times> ExtendedCache"

type_synonym json_parser = "string \<Rightarrow> jsval option"
type_synonym exists_probe = "string \<Rightarrow> error + bool"
type_synonym index_processor = "string \<Rightarrow> jsval \<Rightarrow> ExtendedCache \<Rightarrow> outcome"

section \<open>The package scanner\<close>

text \<open>Lines 21 to 26 of \<^verbatim>\<open>src/scanner/package.ts\<close>: the four property reads, in order.\<close>

definition packageInfo_of :: "string \<Rightarrow> jsval \<Rightarrow> error + PackageInfo" where
  "packageInfo_of packagePath packageJson =
     (case get_prop packageJson ''name'' of Inl e \<Rightarrow> Inl e | Inr n \<Rightarrow>
     (case get_prop packageJson ''version'' of Inl e \<Rightarrow> Inl e | Inr v \<Rightarrow>
     (case get_prop packageJson ''canonical'' of Inl e \<Rightarrow> Inl e | Inr c \<Rightarrow>
     (case get_prop packageJson ''fhirVersions'' of Inl e \<Rightarrow> Inl e | Inr f \<Rightarrow>
        Inr \<lparr>pkg_id = \<lparr>name = n, version = v\<rparr>, path = packagePath,
             canonical = c, fhirVersions = f\<rparr>))))"

text \<open>
  Line 27, \<^verbatim>\<open>cache.packages[packageJson.name] = packageInfo\<close>, once the name has been
  turned into the key. \<open>packages\<close> holds the own properties of \<^verbatim>\<open>cache.packages\<close>, a
  plain object: assigning to its \<^verbatim>\<open>__proto__\<close> replaces its prototype, which is not
  modelled, and adds no property.
\<close>

definition register :: "string \<Rightarrow> PackageInfo \<Rightarrow> ExtendedCache \<Rightarrow> ExtendedCache" where
  "register key packageInfo cache =
     (if key = ''__proto__'' then cache
      else cache\<lparr>packages := (packages cache)(key \<mapsto> packageInfo)\<rparr>)"

text \<open>
  The body of the \<^verbatim>\<open>try\<close> block. \<^verbatim>\<open>JSON.parse\<close> (\<open>None\<close> is its SyntaxError) and
  the two imported functions \<^verbatim>\<open>fileExists\<close> and \<^verbatim>\<open>processIndex\<close> are parameters;
  each may throw, and \<^verbatim>\<open>processIndex\<close> may have changed the cache before it throws.
  Line 27 throws when the name cannot be turned into a property key.
\<close>

definition scanPackage_try ::
  "json_parser \<Rightarrow> filesystem \<Rightarrow> exists_probe \<Rightarrow> index_processor \<Rightarrow>
     string \<Rightarrow> ExtendedCache \<Rightarrow> outcome" where
  "scanPackage_try JSON_parse fs fileExists processIndex packagePath cache =
     (let packageJsonPath = path_join packagePath ''package.json'' in
      case fs_readFile fs packageJsonPath of Inl e \<Rightarrow> (Inl e, cache) | Inr packageJsonContent \<Rightarrow>
     (case JSON_parse packageJsonContent of None \<Rightarrow> (Inl SyntaxError, cache) | Some packageJson \<Rightarrow>
     (case packageInfo_of packagePath packageJson of Inl e \<Rightarrow> (Inl e, cache) | Inr packageInfo \<Rightarrow>
     (case ToString (name (pkg_id packageInfo)) of Inl e \<Rightarrow> (Inl e, cache) | Inr key \<Rightarrow>
     (case processIndex packagePath packageJson (register key packageInfo cache) of
        (Inl e, cache2) \<Rightarrow> (Inl e, cache2)
      | (Inr _, cache2) \<Rightarrow>
          (let examplesPath = path_join packagePath ''examples'' in
           case fileExists (path_join examplesPath ''.index.json'') of
             Inl e \<Rightarrow> (Inl e, cache2)
           | Inr found \<Rightarrow>
               if found then processIndex examplesPath packageJson cache2
               else (Inr (), cache2)))))))"

text \<open>The whole function: the \<^verbatim>\<open>catch\<close> block is empty, so a thrown error is dropped
  and the cache stays as the throwing step left it.\<close>

definition scanPackage ::
  "json_parser \<Rightarrow> filesystem \<Rightarrow> exists_probe \<Rightarrow> index_processor \<Rightarrow>
     string \<Rightarrow> ExtendedCache \<Rightarrow> outcome" where
  "scanPackage JSON_parse fs fileExists processIndex packagePath cache =
     (case scanPackage_try JSON_parse fs fileExists processIndex packagePath cache of
        (Inl e, cache') \<Rightarrow> (Inr (), cache')
      | (Inr u, cache') \<Rightarrow> (Inr u, cache'))"

section \<open>The collaborators the scanner imports\<close>

subsection \<open>The file-system probe\<close>

text \<open>
  Modelled from the spec: \<^verbatim>\<open>fileExists\<close> of \<^verbatim>\<open>src/fs\<close>, which is not among the
  sources (its tests are). The spec, section 4.1: ``\<^verbatim>\<open>exists(path) -> bool\<close>: never
  throws; any access error (including permission denial) is treated as "does not
  exist".''
\<close>

definition fileExists :: "filesystem \<Rightarrow> string \<Rightarrow> error + bool" where
  "fileExists fs filePath =
     (case fs_access fs filePath of Inl e \<Rightarrow> Inr False | Inr u \<Rightarrow> Inr True)"

text \<open>
  Modelled from the spec: \<^verbatim>\<open>isFhirPackage\<close> of \<^verbatim>\<open>src/fs\<close>, which is not among the
  sources (its tests are). The spec, section 4.1: ``\<^verbatim>\<open>isIndexedPackage(path) -> bool\<close>:
  true iff a hidden index-manifest file exists directly under \<^verbatim>\<open>path\<close>; false for any
  other condition, including an empty or invalid path string.'' Nothing is under the
  empty path; every other path is answered by the probe, which rejects an invalid one.
\<close>

definition isFhirPackage :: "filesystem \<Rightarrow> string \<Rightarrow> error + bool" where
  "isFhirPackage fs dirPath =
     (if dirPath = [] then Inr False
      else fileExists fs (path_join dirPath ''.index.json''))"

subsection \<open>The index processor\<close>

text \<open>
  Modelled from the spec: \<^verbatim>\<open>processIndex\<close> of \<^verbatim>\<open>src/scanner/processor\<close>, which is not
  among the sources. The spec, section 4.3: it reads the hidden index-manifest file in the
  directory, which enumerates zero or more resource descriptors; for each descriptor it
  constructs an entry that copies the declared fields verbatim and attaches the
  PackageInfo registered for this package, resolved by name from \<^verbatim>\<open>cache.packages\<close>;
  it appends the entries to \<^verbatim>\<open>cache.entries\<close> in file order; a malformed or unreadable
  manifest aborts processing for that directory only. The spec does not give the layout
  of the index manifest, so its decoder is a parameter (\<open>None\<close>: malformed).
\<close>

type_synonym index_decoder = "string \<Rightarrow> Descriptor list option"

text \<open>Modelled from the spec: the PackageInfo registered for the package of the manifest,
  ``resolved by name from \<^verbatim>\<open>cache.packages\<close>, not re-derived'' (section 4.3); a manifest
  whose name cannot be read, or cannot be turned into a key, resolves to none.\<close>

definition owner :: "jsval \<Rightarrow> ExtendedCache \<Rightarrow> PackageInfo option" where
  "owner packageManifest cache =
     (case get_prop packageManifest ''name'' of
        Inl e \<Rightarrow> None
      | Inr n \<Rightarrow> (case ToString n of Inl e \<Rightarrow> None | Inr key \<Rightarrow> packages cache key))"

text \<open>Modelled from the spec: the entry of a descriptor, which ``copies the declared
  url/type/kind/version fields verbatim'' and attaches the PackageInfo (section 4.3).\<close>

definition entry_of :: "PackageInfo option \<Rightarrow> Descriptor \<Rightarrow> IndexEntry" where
  "entry_of pkg d = Descriptor.extend d (IndexEntry.fields pkg)"

text \<open>Modelled from the spec: \<^verbatim>\<open>processIndex\<close> itself, as the text above has it; it
  returns normally in every case, and a manifest that cannot be read or decoded leaves the
  cache as it was.\<close>

definition processIndex ::
  "index_decoder \<Rightarrow> filesystem \<Rightarrow> string \<Rightarrow> jsval \<Rightarrow> ExtendedCache \<Rightarrow> outcome" where
  "processIndex parseIndex fs directory packageManifest cache =
     (case fs_readFile fs (path_join directory ''.index.json'') of
        Inl e \<Rightarrow> (Inr (), cache)
      | Inr indexContent \<Rightarrow>
          (case parseIndex indexContent of
             None \<Rightarrow> (Inr (), cache)
           | Some descriptors \<Rightarrow>
               (Inr (), cache\<lparr>entries := entries cache @
                                  map (entry_of (owner packageManifest cache)) descriptors\<rparr>)))"

section \<open>The cache's search\<close>

text \<open>
  Modelled from the spec: the search of the canonical cache
  (\<^verbatim>\<open>searchEntries\<close>), which is not among the sources (its caller in the search tool
  is). The spec, section 4.4: the criteria are independently optional; an entry matches
  iff every supplied criterion is satisfied, \<^verbatim>\<open>type\<close>, \<^verbatim>\<open>kind\<close> and \<^verbatim>\<open>version\<close> by
  exact string equality against the entry's own fields, \<^verbatim>\<open>package\<close> by the name of the
  entry's package back-reference; the result keeps the ingestion order and is not
  deduplicated.
\<close>

text \<open>Modelled from the spec: the criteria, ``a configuration object with
  independently-optional fields \<^verbatim>\<open>{type, kind, version, package}\<close>'' (section 4.4); the
  package is given as one of the identities the manager lists, as the search tool does.\<close>

record criteria =
  by_type :: "string option"
  by_kind :: "string option"
  by_version :: "string option"
  by_package :: "PackageId option"

text \<open>Modelled from the spec: ``an entry matches iff every supplied criterion is
  satisfied'' (section 4.4).\<close>

definition matches :: "criteria \<Rightarrow> IndexEntry \<Rightarrow> bool" where
  "matches c e =
     ((case by_type c of None \<Rightarrow> True | Some t \<Rightarrow> type e = Some t) \<and>
      (case by_kind c of None \<Rightarrow> True | Some k \<Rightarrow> kind e = Some k) \<and>
      (case by_version c of None \<Rightarrow> True | Some v \<Rightarrow> resource_version e = Some v) \<and>
      (case by_package c of None \<Rightarrow> True
       | Some p \<Rightarrow> (case package e of None \<Rightarrow> False
                    | Some i \<Rightarrow> name (pkg_id i) = name p)))"

text \<open>Modelled from the spec: the search, which keeps the ingestion order and does not
  deduplicate (section 4.4).\<close>

definition search :: "criteria \<Rightarrow> ExtendedCache \<Rightarrow> IndexEntry list" where
  "search c cache = filter (matches c) (entries cache)"

section \<open>The search tool\<close>

subsection \<open>Strings\<close>

text \<open>
  \<^verbatim>\<open>s.toLowerCase()\<close> is a parameter of the tool's model, of this type: nothing is fixed
  about which characters have a lower case.
\<close>

type_synonym lower_caser = "string \<Rightarrow> string"

text \<open>\<^verbatim>\<open>s.includes(t)\<close>: \<open>t\<close> occurs in \<open>s\<close> at some position.\<close>

fun startsWith :: "string \<Rightarrow> string \<Rightarrow> bool" where
  "startsWith s [] = True"
| "startsWith [] (c # cs) = False"
| "startsWith (x # xs) (c # cs) = (x = c \<and> startsWith xs cs)"

fun string_includes :: "string \<Rightarrow> string \<Rightarrow> bool" where
  "string_includes [] t = (t = [])"
| "string_includes (x # xs) t = (startsWith (x # xs) t \<or> string_includes xs t)"

subsection \<open>\<^verbatim>\<open>main\<close> of \<^verbatim>\<open>tools/search-canonical.ts\<close>\<close>

datatype format = json | table | csv

text \<open>What \<^verbatim>\<open>parseArgs\<close> returns.\<close>

record SearchOptions =
  opt_url :: "string option"
  opt_type :: "string option"
  opt_kind :: "string option"
  opt_package :: "string option"
  opt_version :: "string option"
  opt_format :: "format option"
  opt_limit :: "int option"
  opt_help :: bool

text \<open>
  \<^verbatim>\<open>searchParams\<close> is an object of type \<^verbatim>\<open>any\<close>: a finite map from property names to
  what the tool stores there, a string or one of the manager's package identities.
\<close>

datatype param = PStr string | PPkg PackageId

type_synonym searchParams = "string \<rightharpoonup> param"

text \<open>The manager as the tool uses it; each call may reject.\<close>

record 'e Manager =
  mgr_init :: "error + unit"
  mgr_packages :: "error + PackageId list"
  mgr_searchEntries :: "searchParams \<Rightarrow> error + 'e list"

text \<open>What the run ends with: the process exits with a code before anything is formatted,
  or the results reach the formatter of the chosen format.\<close>

datatype 'e tool_result = Exit nat | Formatted format "'e list"

text \<open>\<^verbatim>\<open>if (options.f) searchParams.f = options.f\<close>: an absent and an empty string are
  both falsy.\<close>

definition set_if_truthy :: "string \<Rightarrow> string option \<Rightarrow> searchParams \<Rightarrow> searchParams" where
  "set_if_truthy key v searchParams =
     (case v of
        None \<Rightarrow> searchParams
      | Some s \<Rightarrow> if s = [] then searchParams else searchParams(key \<mapsto> PStr s))"

text \<open>Lines 389 to 407: the search parameters, or the exit code when the package filter
  names no known package (or listing the packages rejects, which the \<^verbatim>\<open>catch\<close> turns
  into exit code 1).\<close>

definition searchParams_of ::
  "('e, 'm) Manager_scheme \<Rightarrow> 'o SearchOptions_scheme \<Rightarrow> nat + searchParams" where
  "searchParams_of manager options =
     (let searchParams =
            set_if_truthy ''version'' (opt_version options)
              (set_if_truthy ''kind'' (opt_kind options)
                (set_if_truthy ''type'' (opt_type options) Map.empty))
      in case opt_package options of
           None \<Rightarrow> Inr searchParams
         | Some wanted \<Rightarrow>
             if wanted = [] then Inr searchParams
             else (case mgr_packages manager of
                     Inl e \<Rightarrow> Inl 1
                   | Inr pkgs \<Rightarrow>
                       (case find (\<lambda>p. name p = Str wanted) pkgs of
                          Some pkg \<Rightarrow> Inr (searchParams(''package'' \<mapsto> PPkg pkg))
                        | None \<Rightarrow> Inl 1)))"

text \<open>Lines 413 to 418: the filter on the URL.\<close>

definition url_filter ::
  "lower_caser \<Rightarrow> string option \<Rightarrow> ('d Descriptor_scheme) list \<Rightarrow> ('d Descriptor_scheme) list" where
  "url_filter toLowerCase u results =
     (case u of
        None \<Rightarrow> results
      | Some s \<Rightarrow>
          if s = [] then results
          else (let urlLower = toLowerCase s
                in filter (\<lambda>entry. case url entry of
                                      None \<Rightarrow> False
                                    | Some eu \<Rightarrow> string_includes (toLowerCase eu) urlLower) results))"

text \<open>Lines 421 to 423: the limit.\<close>

definition apply_limit :: "int option \<Rightarrow> 'a list \<Rightarrow> 'a list" where
  "apply_limit l results =
     (case l of
        None \<Rightarrow> results
      | Some n \<Rightarrow> if n \<noteq> 0 \<and> n > 0 then take (nat n) results else results)"

definition main ::
  "lower_caser \<Rightarrow> ('d Descriptor_scheme, 'm) Manager_scheme \<Rightarrow> 'o SearchOptions_scheme \<Rightarrow>
     ('d Descriptor_scheme) tool_result" where
  "main toLowerCase manager options =
     (if opt_help options then Exit 0
      else case mgr_init manager of
             Inl e \<Rightarrow> Exit 1
           | Inr u \<Rightarrow>
               (case searchParams_of manager options of
                  Inl code \<Rightarrow> Exit code
                | Inr searchParams \<Rightarrow>
                    (case mgr_searchEntries manager searchParams of
                       Inl e \<Rightarrow> Exit 1
                     | Inr results \<Rightarrow>
                         Formatted (case opt_format options of None \<Rightarrow> table | Some f \<Rightarrow> f)
                           (apply_limit (opt_limit options)
                              (url_filter toLowerCase (opt_url options) results)))))"

section \<open>Notions the properties are stated with\<close>

text \<open>The manifest of a package directory cannot be used: \<^verbatim>\<open>package.json\<close> cannot be
  read (it is missing, among other reasons), or its text is not JSON.\<close>

definition manifest_unusable :: "json_parser \<Rightarrow> filesystem \<Rightarrow> string \<Rightarrow> bool" where
  "manifest_unusable JSON_parse fs packagePath =
     (case fs_readFile fs (path_join packagePath ''package.json'') of
        Inl e \<Rightarrow> True
      | Inr packageJsonContent \<Rightarrow> JSON_parse packageJsonContent = None)"

text \<open>The value is an object with an own property \<open>k\<close>.\<close>

fun has_own :: "jsval \<Rightarrow> string \<Rightarrow> bool" where
  "has_own (Obj kvs) k = (map_of kvs k \<noteq> None)"
| "has_own v k = False"


text \<open>An index processor that leaves \<^verbatim>\<open>cache.packages\<close> as it finds it, whether it
  returns or throws: what the spec's section 4.3 has the index processor do.\<close>

definition keeps_packages :: "index_processor \<Rightarrow> bool" where
  "keeps_packages process = (\<forall>d m c. packages (snd (process d m c)) = packages c)"

section \<open>Examples\<close>

text \<open>
  A working directory with a well-formed package \<^verbatim>\<open>/pkgs/p1\<close> (two resources in its
  index and three in the index of its \<^verbatim>\<open>examples\<close>), a package \<^verbatim>\<open>/pkgs/p2\<close> whose
  manifest is cut short, a package \<^verbatim>\<open>/pkgs/p3\<close> whose manifest is the JSON text
  \<^verbatim>\<open>null\<close>, a package \<^verbatim>\<open>/pkgs/p4\<close> whose manifest is the empty object, and two
  packages \<^verbatim>\<open>/pkgs/p6\<close> and \<^verbatim>\<open>/pkgs/p7\<close> whose name is an object with a
  \<^verbatim>\<open>toString\<close> key, the first without a version, the second with one and with both
  indexes.
\<close>

definition p1_manifest_text :: string where
  \<open>p1_manifest_text = ''{"name":"p1","version":"1.0.0","canonical":"http://example.org/p1"}''\<close>

definition p1_manifest :: jsval where
  "p1_manifest =
     Obj [(''name'', Str ''p1''), (''version'', Str ''1.0.0''),
          (''canonical'', Str ''http://example.org/p1'')]"

definition p2_manifest_text :: string where
  \<open>p2_manifest_text = ''{"name":"p2",''\<close>

definition p6_manifest_text :: string where
  \<open>p6_manifest_text = ''{"name":{"toString":1}}''\<close>

definition p6_manifest :: jsval where
  "p6_manifest = Obj [(''name'', Obj [(''toString'', Num ''1'')])]"

definition p7_manifest_text :: string where
  \<open>p7_manifest_text = ''{"name":{"toString":1},"version":"1"}''\<close>

definition p7_manifest :: jsval where
  "p7_manifest = Obj [(''name'', Obj [(''toString'', Num ''1'')]), (''version'', Str ''1'')]"

text \<open>\<^verbatim>\<open>JSON.parse\<close> on the manifests of the example; every other text is taken as
  malformed, as the manifest of \<^verbatim>\<open>/pkgs/p2\<close> is.\<close>

definition example_parse :: json_parser where
  "example_parse s =
     (if s = p1_manifest_text then Some p1_manifest
      else if s = p6_manifest_text then Some p6_manifest
      else if s = p7_manifest_text then Some p7_manifest
      else if s = ''null'' then Some Null
      else if s = ''{}'' then Some (Obj [])
      else None)"

definition descr :: "string \<Rightarrow> string \<Rightarrow> string \<Rightarrow> Descriptor" where
  "descr u t k = \<lparr>url = Some u, type = Some t, kind = Some k, resource_version = None\<rparr>"

definition root_descriptors :: "Descriptor list" where
  "root_descriptors =
     [descr ''http://example.org/p1/A'' ''StructureDefinition'' ''resource'',
      descr ''http://example.org/p1/B'' ''ValueSet'' ''resource'']"

definition examples_descriptors :: "Descriptor list" where
  "examples_descriptors =
     [descr ''http://example.org/p1/e1'' ''Patient'' ''example'',
      descr ''http://example.org/p1/e2'' ''Patient'' ''example'',
      descr ''http://example.org/p1/e3'' ''Observation'' ''example'']"

text \<open>The decoder of the two index manifests of the example, which stand for their
  descriptors.\<close>

definition example_parseIndex :: index_decoder where
  "example_parseIndex s =
     (if s = ''root-index'' then Some root_descriptors
      else if s = ''examples-index'' then Some examples_descriptors
      else None)"

definition example_fs :: filesystem where
  "example_fs p =
     (if p = ''/pkgs/p1/package.json'' then RegularFile p1_manifest_text
      else if p = ''/pkgs/p1/.index.json'' then RegularFile ''root-index''
      else if p = ''/pkgs/p1/examples/.index.json'' then RegularFile ''examples-index''
      else if p = ''/pkgs/p2/package.json'' then RegularFile p2_manifest_text
      else if p = ''/pkgs/p2/.index.json'' then RegularFile ''root-index''
      else if p = ''/pkgs/p3/package.json'' then RegularFile ''null''
      else if p = ''/pkgs/p3/.index.json'' then RegularFile ''root-index''
      else if p = ''/pkgs/p3/examples/.index.json'' then RegularFile ''examples-index''
      else if p = ''/pkgs/p4/package.json'' then RegularFile ''{}''
      else if p = ''/pkgs/p5/index.json'' then RegularFile ''root-index''
      else if p = ''/pkgs/p6/package.json'' then RegularFile p6_manifest_text
      else if p = ''/pkgs/p7/package.json'' then RegularFile p7_manifest_text
      else if p = ''/pkgs/p7/.index.json'' then RegularFile ''root-index''
      else if p = ''/pkgs/p7/examples/.index.json'' then RegularFile ''examples-index''
      else if p = ''/pkgs/secret'' then NoPermission
      else if p \<in> {''/pkgs'', ''/pkgs/p1'', ''/pkgs/p1/examples'', ''/pkgs/p2'', ''/pkgs/p3'',
                    ''/pkgs/p3/examples'', ''/pkgs/p4'', ''/pkgs/p5'', ''/pkgs/p6'',
                    ''/pkgs/p7'', ''/pkgs/p7/examples''} then Directory
      else NoEntry)"

definition empty_cache :: ExtendedCache where
  "empty_cache = \<lparr>packages = Map.empty, entries = []\<rparr>"

definition p1_info :: PackageInfo where
  "p1_info =
     \<lparr>pkg_id = \<lparr>name = Str ''p1'', version = Str ''1.0.0''\<rparr>, path = ''/pkgs/p1'',
      canonical = Str ''http://example.org/p1'', fhirVersions = Undefined\<rparr>"

text \<open>The scanner with the collaborators of the spec, on the example.\<close>

definition scan_example :: "string \<Rightarrow> ExtendedCache \<Rightarrow> outcome" where
  "scan_example =
     scanPackage example_parse example_fs (fileExists example_fs)
       (processIndex example_parseIndex example_fs)"

text \<open>A cache that already holds a package under the name \<^verbatim>\<open>p1\<close>.\<close>

definition old_p1_info :: PackageInfo where
  "old_p1_info =
     \<lparr>pkg_id = \<lparr>name = Str ''p1'', version = Str ''0.9.0''\<rparr>, path = ''/old/p1'',
      canonical = Undefined, fhirVersions = Undefined\<rparr>"

definition stale_cache :: ExtendedCache where
  "stale_cache = \<lparr>packages = [''p1'' \<mapsto> old_p1_info], entries = []\<rparr>"

text \<open>What the scanner makes of the empty manifest of \<^verbatim>\<open>/pkgs/p4\<close>.\<close>

definition anonymous_info :: PackageInfo where
  "anonymous_info =
     \<lparr>pkg_id = \<lparr>name = Undefined, version = Undefined\<rparr>, path = ''/pkgs/p4'',
      canonical = Undefined, fhirVersions = Undefined\<rparr>"


text \<open>The three entries of the spec's search example, and the criteria that constrain
  nothing.\<close>

definition entry :: "string \<Rightarrow> string \<Rightarrow> string \<Rightarrow> IndexEntry" where
  "entry u t k = entry_of None (descr u t k)"

definition search_example :: ExtendedCache where
  "search_example =
     \<lparr>packages = Map.empty,
      entries = [entry ''A'' ''X'' ''resource'', entry ''B'' ''Y'' ''resource'',
                 entry ''A'' ''X'' ''logical'']\<rparr>"

definition no_criteria :: criteria where
  "no_criteria = \<lparr>by_type = None, by_kind = None, by_version = None, by_package = None\<rparr>"

text \<open>\<^verbatim>\<open>s.toLowerCase()\<close> as it is on ASCII strings, which the strings of the example
  are: the letters A to Z become a to z, every other character stays.\<close>

definition lower_char :: "char \<Rightarrow> char" where
  "lower_char c =
     (case map_of (zip ''ABCDEFGHIJKLMNOPQRSTUVWXYZ'' ''abcdefghijklmnopqrstuvwxyz'') c of
        None \<Rightarrow> c
      | Some l \<Rightarrow> l)"

definition ascii_toLowerCase :: lower_caser where
  "ascii_toLowerCase s = map lower_char s"

text \<open>A manager whose search returns three entries, the second without a URL, and the
  options of a run of the tool that gives \<^verbatim>\<open>--url\<close> only.\<close>

definition tool_entries :: "IndexEntry list" where
  "tool_entries =
     [entry ''http://hl7.org/fhir/StructureDefinition/Patient'' ''StructureDefinition'' ''resource'',
      entry_of None
        \<lparr>url = None, type = Some ''Basic'', kind = Some ''resource'', resource_version = None\<rparr>,
      entry ''http://hl7.org/fhir/ValueSet/languages'' ''ValueSet'' ''resource'']"

definition tool_manager :: "IndexEntry Manager" where
  "tool_manager =
     \<lparr>mgr_init = Inr (),
      mgr_packages = Inr [\<lparr>name = Str ''hl7.fhir.r4.core'', version = Str ''4.0.1''\<rparr>],
      mgr_searchEntries = (\<lambda>searchParams. Inr tool_entries)\<rparr>"

definition tool_options :: "string option \<Rightarrow> SearchOptions" where
  "tool_options u =
     \<lparr>opt_url = u, opt_type = None, opt_kind = None, opt_package = None, opt_version = None,
      opt_format = Some table, opt_limit = None, opt_help = False\<rparr>"

section \<open>Properties of the scanner\<close>

subsection \<open>General facts\<close>

lemma scanPackage_returns:
  "fst (scanPackage JSON_parse fs probe process packagePath cache) = Inr ()"
  by (simp add: scanPackage_def split: prod.splits sum.splits)

lemma scanPackage_eq:
  "scanPackage JSON_parse fs probe process P cache =
     (Inr (), snd (scanPackage_try JSON_parse fs probe process P cache))"
  by (simp add: scanPackage_def split: prod.splits sum.splits)

lemma scanPackage_try_unusable:
  "manifest_unusable JSON_parse fs P \<Longrightarrow>
     \<exists>e. scanPackage_try JSON_parse fs probe process P cache = (Inl e, cache)"
  by (auto simp: manifest_unusable_def scanPackage_try_def split: sum.splits)

lemma scanPackage_unusable:
  "manifest_unusable JSON_parse fs P \<Longrightarrow>
     scanPackage JSON_parse fs probe process P cache = (Inr (), cache)"
  using scanPackage_try_unusable [of JSON_parse fs P probe process cache]
  by (auto simp: scanPackage_def)

lemma packages_register:
  "key \<noteq> ''__proto__'' \<Longrightarrow> packages (register key info cache) key = Some info"
  by (simp add: register_def)

text \<open>When the name cannot be turned into a property key, line 27 throws and the scan
  ends with the cache as it was.\<close>

lemma scanPackage_key_throws:
  assumes "fs_readFile fs (path_join P ''package.json'') = Inr content"
    and "JSON_parse content = Some m"
    and "packageInfo_of P m = Inr info"
    and "ToString (name (pkg_id info)) = Inl e"
  shows "scanPackage JSON_parse fs probe process P cache = (Inr (), cache)"
  using assms by (simp add: scanPackage_def scanPackage_try_def)

text \<open>With the manifest read, parsed, turned into a PackageInfo and its name into a key,
  the packages of the cache after the \<^verbatim>\<open>try\<close> block are those right after line 27,
  whatever the later steps did, as long as the index processor leaves the packages
  alone.\<close>

lemma scanPackage_try_registered:
  assumes "fs_readFile fs (path_join P ''package.json'') = Inr content"
    and "JSON_parse content = Some m"
    and "packageInfo_of P m = Inr info"
    and "ToString (name (pkg_id info)) = Inr key"
    and "keeps_packages process"
  shows "packages (snd (scanPackage_try JSON_parse fs probe process P cache)) =
           packages (register key info cache)"
proof -
  let ?c1 = "register key info cache"
  obtain r c2 where root: "process P m ?c1 = (r, c2)"
    by (cases "process P m ?c1")
  have c2: "packages c2 = packages ?c1"
    using assms(5) root unfolding keeps_packages_def by (metis snd_conv)
  let ?ex = "path_join P ''examples''"
  obtain r' c3 where ex: "process ?ex m c2 = (r', c3)"
    by (cases "process ?ex m c2")
  have c3: "packages c3 = packages c2"
    using assms(5) ex unfolding keeps_packages_def by (metis snd_conv)
  show ?thesis
    using assms(1-4) root ex c2 c3
    by (simp add: scanPackage_try_def Let_def split: sum.splits)
qed

lemma scanPackage_registered:
  assumes "fs_readFile fs (path_join P ''package.json'') = Inr content"
    and "JSON_parse content = Some m"
    and "packageInfo_of P m = Inr info"
    and "ToString (name (pkg_id info)) = Inr key"
    and "keeps_packages process"
  shows "packages (snd (scanPackage JSON_parse fs probe process P cache)) =
           packages (register key info cache)"
  using scanPackage_try_registered [where JSON_parse = JSON_parse and content = content, OF assms]
  by (simp add: scanPackage_eq)



subsection \<open>Reading the manifest\<close>

lemma packageInfo_of_fields:
  assumes "get_prop m ''name'' = Inr n" "get_prop m ''version'' = Inr v"
    "get_prop m ''canonical'' = Inr c" "get_prop m ''fhirVersions'' = Inr f"
  shows "packageInfo_of P m =
     Inr \<lparr>pkg_id = \<lparr>name = n, version = v\<rparr>, path = P, canonical = c, fhirVersions = f\<rparr>"
  using assms by (simp add: packageInfo_of_def)

lemma get_prop_total:
  "m \<noteq> Null \<Longrightarrow> m \<noteq> Undefined \<Longrightarrow> \<exists>v. get_prop m k = Inr v"
  by (cases m) (auto split: option.splits)

lemma get_prop_absent:
  "m \<noteq> Null \<Longrightarrow> m \<noteq> Undefined \<Longrightarrow> \<not> has_own m k \<Longrightarrow> get_prop m k = Inr Undefined"
  by (cases m) auto

lemma packageInfo_of_total:
  assumes "m \<noteq> Null" "m \<noteq> Undefined"
  shows "\<exists>n v c f. get_prop m ''name'' = Inr n \<and> get_prop m ''version'' = Inr v \<and>
           get_prop m ''canonical'' = Inr c \<and> get_prop m ''fhirVersions'' = Inr f \<and>
           packageInfo_of P m =
             Inr \<lparr>pkg_id = \<lparr>name = n, version = v\<rparr>, path = P, canonical = c, fhirVersions = f\<rparr>"
proof -
  obtain n where n: "get_prop m ''name'' = Inr n"
    using get_prop_total [OF assms] by blast
  obtain v where v: "get_prop m ''version'' = Inr v"
    using get_prop_total [OF assms] by blast
  obtain c where c: "get_prop m ''canonical'' = Inr c"
    using get_prop_total [OF assms] by blast
  obtain f where f: "get_prop m ''fhirVersions'' = Inr f"
    using get_prop_total [OF assms] by blast
  show ?thesis
    using n v c f packageInfo_of_fields [OF n v c f] by blast
qed

subsection \<open>The collaborators of the spec\<close>


lemma processIndex_keeps_packages: "keeps_packages (processIndex parseIndex fs)"
  by (simp add: keeps_packages_def processIndex_def split: sum.splits option.splits)



lemma owner_entries [simp]: "owner m (c\<lparr>entries := es\<rparr>) = owner m c"
  by (simp add: owner_def split: sum.splits)

lemma entries_register [simp]: "entries (register key info cache) = entries cache"
  by (simp add: register_def)



subsection \<open>The example, evaluated\<close>

lemma example_paths:
  "path_join ''/pkgs/p1'' ''package.json'' = ''/pkgs/p1/package.json''"
  "path_join ''/pkgs/p1'' ''.index.json'' = ''/pkgs/p1/.index.json''"
  "path_join ''/pkgs/p1'' ''examples'' = ''/pkgs/p1/examples''"
  "path_join ''/pkgs/p1/examples'' ''.index.json'' = ''/pkgs/p1/examples/.index.json''"
  "path_join ''/pkgs/p2'' ''package.json'' = ''/pkgs/p2/package.json''"
  "path_join ''/pkgs/p3'' ''package.json'' = ''/pkgs/p3/package.json''"
  "path_join ''/pkgs/p3'' ''.index.json'' = ''/pkgs/p3/.index.json''"
  "path_join ''/pkgs/p3'' ''examples'' = ''/pkgs/p3/examples''"
  "path_join ''/pkgs/p3/examples'' ''.index.json'' = ''/pkgs/p3/examples/.index.json''"
  "path_join ''/pkgs/p4'' ''package.json'' = ''/pkgs/p4/package.json''"
  "path_join ''/pkgs/p4'' ''.index.json'' = ''/pkgs/p4/.index.json''"
  "path_join ''/pkgs/p4'' ''examples'' = ''/pkgs/p4/examples''"
  "path_join ''/pkgs/p4/examples'' ''.index.json'' = ''/pkgs/p4/examples/.index.json''"
  "path_join ''/pkgs/p5'' ''package.json'' = ''/pkgs/p5/package.json''"
  "path_join ''/pkgs/p5'' ''.index.json'' = ''/pkgs/p5/.index.json''"
  "path_join ''/pkgs/p5'' ''index.json'' = ''/pkgs/p5/index.json''"
  "path_join ''/pkgs/p6'' ''package.json'' = ''/pkgs/p6/package.json''"
  "path_join ''/pkgs/p7'' ''package.json'' = ''/pkgs/p7/package.json''"
  "path_join ''/pkgs/p7'' ''.index.json'' = ''/pkgs/p7/.index.json''"
  "path_join ''/pkgs/p7'' ''examples'' = ''/pkgs/p7/examples''"
  "path_join ''/pkgs/p7/examples'' ''.index.json'' = ''/pkgs/p7/examples/.index.json''"
  "path_join ''/pkgs/missing'' ''.index.json'' = ''/pkgs/missing/.index.json''"
  by (simp_all add: path_join_def normalize_def normalizeString_def normalize_step_def)

lemma example_reads:
  "fs_readFile example_fs ''/pkgs/p1/package.json'' = Inr p1_manifest_text"
  "fs_readFile example_fs ''/pkgs/p3/package.json'' = Inr ''null''"
  "fs_readFile example_fs ''/pkgs/p4/package.json'' = Inr ''{}''"
  "fs_readFile example_fs ''/pkgs/p6/package.json'' = Inr p6_manifest_text"
  "fs_readFile example_fs ''/pkgs/p7/package.json'' = Inr p7_manifest_text"
  by (simp_all add: fs_readFile_def example_fs_def)

lemma example_parses:
  "example_parse p1_manifest_text = Some p1_manifest"
  "example_parse p6_manifest_text = Some p6_manifest"
  "example_parse p7_manifest_text = Some p7_manifest"
  "example_parse ''null'' = Some Null"
  "example_parse ''{}'' = Some (Obj [])"
  by (simp_all add: example_parse_def p1_manifest_text_def p6_manifest_text_def
      p7_manifest_text_def)

lemmas example_defs =
  scan_example_def scanPackage_def scanPackage_try_def example_paths
  fs_readFile_def fs_access_def fileExists_def processIndex_def example_fs_def
  example_parse_def example_parseIndex_def p1_manifest_def p1_manifest_text_def
  p6_manifest_def p6_manifest_text_def p7_manifest_def p7_manifest_text_def
  packageInfo_of_def register_def owner_def empty_cache_def p1_info_def



lemma p2_unusable: "manifest_unusable example_parse example_fs ''/pkgs/p2''"
  by (simp add: manifest_unusable_def example_paths fs_readFile_def example_fs_def
      example_parse_def p2_manifest_text_def p1_manifest_text_def p6_manifest_text_def
      p7_manifest_text_def)

lemma p5_unusable: "manifest_unusable example_parse example_fs ''/pkgs/p5''"
  by (simp add: manifest_unusable_def example_paths fs_readFile_def example_fs_def)

lemma scan_p1:
  "scan_example ''/pkgs/p1'' empty_cache =
     (Inr (), \<lparr>packages = [''p1'' \<mapsto> p1_info],
               entries = map (entry_of (Some p1_info)) (root_descriptors @ examples_descriptors)\<rparr>)"
  by (simp add: example_defs)

section \<open>The claims about the scanner\<close>

text \<open>
  Claim C1. When \<^verbatim>\<open>package.json\<close> of a package directory is missing (or cannot be read)
  or is not JSON, \<^verbatim>\<open>scanPackage\<close> returns normally and leaves the cache exactly as it
  was: no package registered, no entry appended. So scanning any package \<open>P1\<close> and such
  a package \<open>P2\<close>, in either order, leaves the cache that scanning \<open>P1\<close> alone leaves.
  This holds whatever \<^verbatim>\<open>fileExists\<close> and \<^verbatim>\<open>processIndex\<close> do.
\<close>

theorem scanPackage_unusable_manifest_isolated:
  assumes "manifest_unusable JSON_parse fs P2"
  shows "scanPackage JSON_parse fs probe process P2 cache = (Inr (), cache) \<and>
         scanPackage JSON_parse fs probe process P2
             (snd (scanPackage JSON_parse fs probe process P1 cache)) =
           (Inr (), snd (scanPackage JSON_parse fs probe process P1 cache)) \<and>
         scanPackage JSON_parse fs probe process P1
             (snd (scanPackage JSON_parse fs probe process P2 cache)) =
           scanPackage JSON_parse fs probe process P1 cache"
  using assms by (simp add: scanPackage_unusable)

text \<open>On the example: \<^verbatim>\<open>/pkgs/p2\<close> has a manifest that is cut short; scanned before or
  after \<^verbatim>\<open>/pkgs/p1\<close>, the cache holds the package \<^verbatim>\<open>p1\<close> and its five entries only.
  \<^verbatim>\<open>/pkgs/p5\<close> has no manifest at all.\<close>

theorem scanPackage_unusable_manifest_isolated_witness:
  "manifest_unusable example_parse example_fs ''/pkgs/p5'' \<and>
   scan_example ''/pkgs/p5'' empty_cache = (Inr (), empty_cache) \<and>
   manifest_unusable example_parse example_fs ''/pkgs/p2'' \<and>
   scan_example ''/pkgs/p2'' empty_cache = (Inr (), empty_cache) \<and>
   scan_example ''/pkgs/p2'' (snd (scan_example ''/pkgs/p1'' empty_cache)) =
     (Inr (), \<lparr>packages = [''p1'' \<mapsto> p1_info],
               entries = map (entry_of (Some p1_info)) (root_descriptors @ examples_descriptors)\<rparr>) \<and>
   scan_example ''/pkgs/p1'' (snd (scan_example ''/pkgs/p2'' empty_cache)) =
     (Inr (), \<lparr>packages = [''p1'' \<mapsto> p1_info],
               entries = map (entry_of (Some p1_info)) (root_descriptors @ examples_descriptors)\<rparr>)"
  using scanPackage_unusable_manifest_isolated [OF p2_unusable, of "fileExists example_fs"
      "processIndex example_parseIndex example_fs" empty_cache "''/pkgs/p1''"]
    scanPackage_unusable_manifest_isolated [OF p5_unusable, of "fileExists example_fs"
      "processIndex example_parseIndex example_fs" empty_cache "''/pkgs/p1''"]
    p2_unusable p5_unusable scan_p1
  by (simp add: scan_example_def)

text \<open>
  Claim C2. For every path, every cache, every file system and every behaviour of
  \<^verbatim>\<open>JSON.parse\<close>, \<^verbatim>\<open>fileExists\<close> and \<^verbatim>\<open>processIndex\<close>, the promise of
  \<^verbatim>\<open>scanPackage\<close> is fulfilled, never rejected: whatever step of the \<^verbatim>\<open>try\<close> block
  throws, the call returns, and the cache is the one that block left.
\<close>

theorem scanPackage_never_raises:
  "scanPackage JSON_parse fs probe process packagePath cache =
     (Inr (), snd (scanPackage_try JSON_parse fs probe process packagePath cache))"
  by (simp add: scanPackage_def split: prod.splits sum.splits)

text \<open>
  Claim C3, as stated, fails on a manifest whose name is an object with a \<^verbatim>\<open>toString\<close>
  key: the manifest of \<^verbatim>\<open>/pkgs/p7\<close> parses and declares a name and a version, the
  PackageInfo is built, and line 27 throws a TypeError when it turns the name into a
  property key; the \<^verbatim>\<open>catch\<close> swallows it and the packages stay as they were.
\<close>

theorem scanPackage_unkeyable_name_not_registered:
  "fs_readFile example_fs (path_join ''/pkgs/p7'' ''package.json'') = Inr p7_manifest_text \<and>
   example_parse p7_manifest_text = Some p7_manifest \<and>
   get_prop p7_manifest ''name'' = Inr (Obj [(''toString'', Num ''1'')]) \<and>
   get_prop p7_manifest ''version'' = Inr (Str ''1'') \<and>
   ToString (Obj [(''toString'', Num ''1'')]) = Inl TypeError \<and>
   scan_example ''/pkgs/p7'' empty_cache = (Inr (), empty_cache) \<and>
   packages (snd (scan_example ''/pkgs/p7'' empty_cache)) = Map.empty"
  by (simp add: example_defs)

text \<open>
  Claim C3, amended. When \<^verbatim>\<open>package.json\<close> of \<open>P\<close> parses to a manifest that declares the
  name \<open>n\<close> and the version \<open>v\<close>, and \<open>n\<close> can be turned into a property key other than
  \<^verbatim>\<open>__proto__\<close> (every string is its own key), then after \<^verbatim>\<open>scanPackage\<close> the cache's
  packages hold under that key the PackageInfo with that identity, the path \<open>P\<close> and the
  manifest's \<^verbatim>\<open>canonical\<close> and \<^verbatim>\<open>fhirVersions\<close> (\<^verbatim>\<open>undefined\<close> when absent), whatever
  was stored under that key before. The index processor is taken to leave the packages
  alone.
\<close>

theorem scanPackage_registers_package:
  assumes "fs_readFile fs (path_join P ''package.json'') = Inr content"
    and "JSON_parse content = Some m"
    and "get_prop m ''name'' = Inr n"
    and "get_prop m ''version'' = Inr v"
    and "get_prop m ''canonical'' = Inr c"
    and "get_prop m ''fhirVersions'' = Inr f"
    and "ToString n = Inr key"
    and "key \<noteq> ''__proto__''"
    and "keeps_packages process"
  shows "packages (snd (scanPackage JSON_parse fs probe process P cache)) key =
           Some \<lparr>pkg_id = \<lparr>name = n, version = v\<rparr>, path = P,
                  canonical = c, fhirVersions = f\<rparr> \<and>
         (n = Str s \<longrightarrow>
            packages (snd (scanPackage JSON_parse fs probe process P cache)) s =
              Some \<lparr>pkg_id = \<lparr>name = Str s, version = v\<rparr>, path = P,
                     canonical = c, fhirVersions = f\<rparr>)"
proof -
  let ?info = "\<lparr>pkg_id = \<lparr>name = n, version = v\<rparr>, path = P, canonical = c, fhirVersions = f\<rparr>"
  have key: "ToString (name (pkg_id ?info)) = Inr key"
    using assms(7) by simp
  have "packages (snd (scanPackage JSON_parse fs probe process P cache)) =
      packages (register key ?info cache)"
    by (rule scanPackage_registered [where JSON_parse = JSON_parse and content = content,
          OF assms(1,2) packageInfo_of_fields [OF assms(3-6)] key assms(9)])
  then have reg: "packages (snd (scanPackage JSON_parse fs probe process P cache)) key = Some ?info"
    using assms(8) by (simp add: packages_register)
  show ?thesis
    using reg assms(7) by auto
qed

text \<open>On the example, with a cache that holds an older \<^verbatim>\<open>p1\<close>: it is overwritten.\<close>

theorem scanPackage_registers_package_witness:
  "ToString (Str ''p1'') = Inr ''p1'' \<and>
   packages stale_cache ''p1'' = Some old_p1_info \<and>
   packages (snd (scan_example ''/pkgs/p1'' stale_cache)) ''p1'' = Some p1_info"
  using scanPackage_registers_package [where JSON_parse = example_parse and fs = example_fs
      and P = "''/pkgs/p1''" and content = p1_manifest_text and m = p1_manifest
      and n = "Str ''p1''" and s = "''p1''" and key = "''p1''" and v = "Str ''1.0.0''"
      and c = "Str ''http://example.org/p1''"
      and f = Undefined and process = "processIndex example_parseIndex example_fs"
      and probe = "fileExists example_fs" and cache = stale_cache]
    processIndex_keeps_packages [of example_parseIndex example_fs]
  by (simp add: example_paths example_reads example_parses p1_manifest_def scan_example_def
      p1_info_def stale_cache_def)



text \<open>
  Claim C9, as stated, fails on two manifests. The manifest \<^verbatim>\<open>null\<close> of \<^verbatim>\<open>/pkgs/p3\<close> is
  JSON, lacks a name and is no object, and yet nothing is inserted, because reading
  \<^verbatim>\<open>packageJson.name\<close> throws before line 27. The manifest of \<^verbatim>\<open>/pkgs/p6\<close> lacks a
  version and its name is an object with a \<^verbatim>\<open>toString\<close> key: the PackageInfo is built,
  and line 27 throws when it turns the name into a property key. The \<^verbatim>\<open>catch\<close> swallows
  both TypeErrors.
\<close>

theorem scanPackage_manifest_not_registered:
  "fs_readFile example_fs (path_join ''/pkgs/p3'' ''package.json'') = Inr ''null'' \<and>
   example_parse ''null'' = Some Null \<and>
   scan_example ''/pkgs/p3'' empty_cache = (Inr (), empty_cache) \<and>
   packages (snd (scan_example ''/pkgs/p3'' empty_cache)) ''undefined'' = None \<and>
   fs_readFile example_fs (path_join ''/pkgs/p6'' ''package.json'') = Inr p6_manifest_text \<and>
   example_parse p6_manifest_text = Some p6_manifest \<and>
   has_own p6_manifest ''version'' = False \<and>
   packageInfo_of ''/pkgs/p6'' p6_manifest =
     Inr \<lparr>pkg_id = \<lparr>name = Obj [(''toString'', Num ''1'')], version = Undefined\<rparr>,
          path = ''/pkgs/p6'', canonical = Undefined, fhirVersions = Undefined\<rparr> \<and>
   scan_example ''/pkgs/p6'' empty_cache = (Inr (), empty_cache) \<and>
   packages (snd (scan_example ''/pkgs/p6'' empty_cache)) = Map.empty"
  by (simp add: example_defs)

text \<open>
  Claim C9, amended. The scanner does not validate the manifest: for every
  \<^verbatim>\<open>package.json\<close> that parses to a JSON value other than \<^verbatim>\<open>null\<close>, the call returns
  normally and a PackageInfo is built from whatever the four property reads give. A value
  without a name (an object lacking it, or a number, string, boolean or array) gives the
  name \<^verbatim>\<open>undefined\<close> and is registered under the key \<^verbatim>\<open>"undefined"\<close>; one without a
  version gives the version \<^verbatim>\<open>undefined\<close>; and whenever the name can be turned into a
  property key other than \<^verbatim>\<open>__proto__\<close>, the PackageInfo is registered under that key.
  (\<^verbatim>\<open>JSON.parse\<close> never returns \<^verbatim>\<open>undefined\<close>; the index processor is taken to leave
  the packages alone.)
\<close>

theorem scanPackage_no_validation:
  assumes "fs_readFile fs (path_join P ''package.json'') = Inr content"
    and "JSON_parse content = Some m"
    and "m \<noteq> Null" and "m \<noteq> Undefined"
    and "keeps_packages process"
  shows "fst (scanPackage JSON_parse fs probe process P cache) = Inr () \<and>
         (\<exists>info. packageInfo_of P m = Inr info \<and>
            (\<not> has_own m ''name'' \<longrightarrow>
               name (pkg_id info) = Undefined \<and>
               packages (snd (scanPackage JSON_parse fs probe process P cache)) ''undefined'' =
                 Some info) \<and>
            (\<not> has_own m ''version'' \<longrightarrow> version (pkg_id info) = Undefined) \<and>
            (\<forall>key. ToString (name (pkg_id info)) = Inr key \<longrightarrow> key \<noteq> ''__proto__'' \<longrightarrow>
               packages (snd (scanPackage JSON_parse fs probe process P cache)) key =
                 Some info))"
proof -
  obtain n v c f where
    props: "get_prop m ''name'' = Inr n" "get_prop m ''version'' = Inr v"
    and info: "packageInfo_of P m =
      Inr \<lparr>pkg_id = \<lparr>name = n, version = v\<rparr>, path = P, canonical = c, fhirVersions = f\<rparr>"
    using packageInfo_of_total [OF assms(3,4)] by blast
  let ?info = "\<lparr>pkg_id = \<lparr>name = n, version = v\<rparr>, path = P, canonical = c, fhirVersions = f\<rparr>"
  let ?final = "snd (scanPackage JSON_parse fs probe process P cache)"
  have reg: "packages ?final key = Some ?info"
    if "ToString (name (pkg_id ?info)) = Inr key" and "key \<noteq> ''__proto__''" for key
    using scanPackage_registered [where JSON_parse = JSON_parse and content = content,
        OF assms(1,2) info that(1) assms(5)] packages_register [OF that(2), of ?info cache]
    by simp
  have n_absent: "\<not> has_own m ''name'' \<longrightarrow> n = Undefined"
    using get_prop_absent [OF assms(3,4)] props(1) by auto
  have v_absent: "\<not> has_own m ''version'' \<longrightarrow> v = Undefined"
    using get_prop_absent [OF assms(3,4)] props(2) by auto
  have undef: "\<not> has_own m ''name'' \<longrightarrow> packages ?final ''undefined'' = Some ?info"
    using n_absent reg [of "''undefined''"] by auto
  show ?thesis
    using info reg n_absent v_absent undef by (auto simp: scanPackage_returns)
qed

text \<open>On the example: the manifest of \<^verbatim>\<open>/pkgs/p4\<close> is the empty object.\<close>

theorem scanPackage_no_validation_witness:
  "example_parse ''{}'' = Some (Obj []) \<and>
   fst (scan_example ''/pkgs/p4'' empty_cache) = Inr () \<and>
   packageInfo_of ''/pkgs/p4'' (Obj []) = Inr anonymous_info \<and>
   ToString (name (pkg_id anonymous_info)) = Inr ''undefined'' \<and>
   packages (snd (scan_example ''/pkgs/p4'' empty_cache)) ''undefined'' = Some anonymous_info"
  using scanPackage_no_validation [where JSON_parse = example_parse and fs = example_fs
      and P = "''/pkgs/p4''" and content = "''{}''" and m = "Obj []"
      and process = "processIndex example_parseIndex example_fs"
      and probe = "fileExists example_fs" and cache = empty_cache]
    processIndex_keeps_packages [of example_parseIndex example_fs]
  by (auto simp: example_paths example_reads example_parses scan_example_def
      packageInfo_of_def anonymous_info_def)




section \<open>The claims about the file-system probe\<close>

text \<open>
  Claim C7. For every path string and every file system, \<^verbatim>\<open>fileExists\<close> returns a
  boolean and never throws: \<^verbatim>\<open>true\<close> exactly when the access succeeds, which it does
  on a file and on a directory alike, and \<^verbatim>\<open>false\<close> on every access error, a denied
  permission and a missing entry among them.
\<close>

theorem fileExists_never_throws:
  "fileExists fs filePath = Inr (fs_access fs filePath = Inr ()) \<and>
   fileExists fs filePath =
     Inr (filePath \<noteq> [] \<and> CHR 0x00 \<notin> set filePath \<and>
          (case fs filePath of
             NoEntry \<Rightarrow> False
           | NoPermission \<Rightarrow> False
           | Directory \<Rightarrow> True
           | RegularFile t \<Rightarrow> True)) \<and>
   fileExists example_fs ''/pkgs/p1/package.json'' = Inr True \<and>
   fileExists example_fs ''/pkgs/p1'' = Inr True \<and>
   fileExists example_fs ''/pkgs/secret'' = Inr False \<and>
   fileExists example_fs ''/pkgs/missing'' = Inr False \<and>
   fileExists example_fs [] = Inr False"
proof (intro conjI)
  show "fileExists fs filePath = Inr (fs_access fs filePath = Inr ())"
    by (cases "fs_access fs filePath") (simp_all add: fileExists_def)
  show "fileExists fs filePath =
     Inr (filePath \<noteq> [] \<and> CHR 0x00 \<notin> set filePath \<and>
          (case fs filePath of
             NoEntry \<Rightarrow> False
           | NoPermission \<Rightarrow> False
           | Directory \<Rightarrow> True
           | RegularFile t \<Rightarrow> True))"
    by (simp add: fileExists_def fs_access_def split: fs_entry.splits)
  show "fileExists example_fs ''/pkgs/p1/package.json'' = Inr True"
    by (simp add: fileExists_def fs_access_def example_fs_def)
  show "fileExists example_fs ''/pkgs/p1'' = Inr True"
    by (simp add: fileExists_def fs_access_def example_fs_def)
  show "fileExists example_fs ''/pkgs/secret'' = Inr False"
    by (simp add: fileExists_def fs_access_def example_fs_def)
  show "fileExists example_fs ''/pkgs/missing'' = Inr False"
    by (simp add: fileExists_def fs_access_def example_fs_def)
  show "fileExists example_fs [] = Inr False"
    by (simp add: fileExists_def fs_access_def)
qed

text \<open>
  Claim C6. For every path string and every file system, \<^verbatim>\<open>isFhirPackage\<close> returns a
  boolean and never throws: \<^verbatim>\<open>true\<close> exactly when the path is not empty and
  \<^verbatim>\<open>.index.json\<close> directly under it can be accessed, \<^verbatim>\<open>false\<close> otherwise. On the example
  it is \<^verbatim>\<open>true\<close> for \<^verbatim>\<open>/pkgs/p1\<close>, and \<^verbatim>\<open>false\<close> for \<^verbatim>\<open>/pkgs/p5\<close>, which holds
  \<^verbatim>\<open>index.json\<close> without the dot only, for a directory that does not exist, for the
  empty path and for a path that is a NUL character.
\<close>

theorem isFhirPackage_iff_index:
  "isFhirPackage fs dirPath =
     Inr (dirPath \<noteq> [] \<and> fs_access fs (path_join dirPath ''.index.json'') = Inr ()) \<and>
   isFhirPackage fs [] = Inr False \<and>
   isFhirPackage example_fs ''/pkgs/p1'' = Inr True \<and>
   example_fs (path_join ''/pkgs/p5'' ''index.json'') = RegularFile ''root-index'' \<and>
   isFhirPackage example_fs ''/pkgs/p5'' = Inr False \<and>
   isFhirPackage example_fs ''/pkgs/missing'' = Inr False \<and>
   isFhirPackage example_fs [CHR 0x00] = Inr False"
proof (intro conjI)
  show "isFhirPackage fs dirPath =
     Inr (dirPath \<noteq> [] \<and> fs_access fs (path_join dirPath ''.index.json'') = Inr ())"
    by (cases "fs_access fs (path_join dirPath ''.index.json'')")
       (simp_all add: isFhirPackage_def fileExists_def)
  show "isFhirPackage fs [] = Inr False"
    by (simp add: isFhirPackage_def)
  show "isFhirPackage example_fs ''/pkgs/p1'' = Inr True"
    by (simp add: isFhirPackage_def fileExists_def fs_access_def example_paths example_fs_def)
  show "example_fs (path_join ''/pkgs/p5'' ''index.json'') = RegularFile ''root-index''"
    by (simp add: example_paths example_fs_def)
  show "isFhirPackage example_fs ''/pkgs/p5'' = Inr False"
    by (simp add: isFhirPackage_def fileExists_def fs_access_def example_paths example_fs_def)
  show "isFhirPackage example_fs ''/pkgs/missing'' = Inr False"
    by (simp add: isFhirPackage_def fileExists_def fs_access_def example_paths example_fs_def)
  show "isFhirPackage example_fs [CHR 0x00] = Inr False"
    by (simp add: isFhirPackage_def fileExists_def fs_access_def path_join_def normalize_def
        normalizeString_def normalize_step_def)
qed

section \<open>The claim about the search\<close>

text \<open>
  Claim C4. For every cache and all criteria, \<^verbatim>\<open>search\<close> returns the entries of the
  cache for which every supplied criterion holds (type, kind and version equal to the
  entry's own field, the package's name equal to the name of the entry's package; an
  omitted criterion constrains nothing), every one of them as often as the cache holds it
  and in the cache's order. On the three entries of the spec's example, the type
  \<^verbatim>\<open>X\<close> selects the first and the third, the kind \<^verbatim>\<open>resource\<close> the first and the
  second, and the type \<^verbatim>\<open>X\<close> with the kind \<^verbatim>\<open>logical\<close> the third.
\<close>

theorem search_returns_matches_in_order:
  "search c cache =
     filter (\<lambda>e. (case by_type c of None \<Rightarrow> True | Some t \<Rightarrow> type e = Some t) \<and>
                  (case by_kind c of None \<Rightarrow> True | Some k \<Rightarrow> kind e = Some k) \<and>
                  (case by_version c of None \<Rightarrow> True | Some v \<Rightarrow> resource_version e = Some v) \<and>
                  (case by_package c of None \<Rightarrow> True
                   | Some p \<Rightarrow> (case package e of None \<Rightarrow> False
                                | Some i \<Rightarrow> name (pkg_id i) = name p)))
       (entries cache) \<and>
   subseq (search c cache) (entries cache) \<and>
   search no_criteria cache = entries cache \<and>
   search (no_criteria\<lparr>by_type := Some ''X''\<rparr>) search_example =
     [entry ''A'' ''X'' ''resource'', entry ''A'' ''X'' ''logical''] \<and>
   search (no_criteria\<lparr>by_kind := Some ''resource''\<rparr>) search_example =
     [entry ''A'' ''X'' ''resource'', entry ''B'' ''Y'' ''resource''] \<and>
   search (no_criteria\<lparr>by_type := Some ''X'', by_kind := Some ''logical''\<rparr>) search_example =
     [entry ''A'' ''X'' ''logical'']"
proof (intro conjI)
  show "search c cache =
     filter (\<lambda>e. (case by_type c of None \<Rightarrow> True | Some t \<Rightarrow> type e = Some t) \<and>
                  (case by_kind c of None \<Rightarrow> True | Some k \<Rightarrow> kind e = Some k) \<and>
                  (case by_version c of None \<Rightarrow> True | Some v \<Rightarrow> resource_version e = Some v) \<and>
                  (case by_package c of None \<Rightarrow> True
                   | Some p \<Rightarrow> (case package e of None \<Rightarrow> False
                                | Some i \<Rightarrow> name (pkg_id i) = name p)))
       (entries cache)"
    unfolding search_def matches_def by (rule refl)
  show "subseq (search c cache) (entries cache)"
    by (simp add: search_def)
  show "search no_criteria cache = entries cache"
    by (simp add: search_def matches_def no_criteria_def)
  show "search (no_criteria\<lparr>by_type := Some ''X''\<rparr>) search_example =
     [entry ''A'' ''X'' ''resource'', entry ''A'' ''X'' ''logical'']"
    by (simp add: search_def matches_def no_criteria_def search_example_def entry_def
        entry_of_def descr_def Descriptor.extend_def IndexEntry.fields_def)
  show "search (no_criteria\<lparr>by_kind := Some ''resource''\<rparr>) search_example =
     [entry ''A'' ''X'' ''resource'', entry ''B'' ''Y'' ''resource'']"
    by (simp add: search_def matches_def no_criteria_def search_example_def entry_def
        entry_of_def descr_def Descriptor.extend_def IndexEntry.fields_def)
  show "search (no_criteria\<lparr>by_type := Some ''X'', by_kind := Some ''logical''\<rparr>) search_example =
     [entry ''A'' ''X'' ''logical'']"
    by (simp add: search_def matches_def no_criteria_def search_example_def entry_def
        entry_of_def descr_def Descriptor.extend_def IndexEntry.fields_def)
qed

section \<open>The claim about the search tool\<close>

lemma startsWith_prefix: "startsWith s t \<longleftrightarrow> prefix t s"
  by (induction s t rule: startsWith.induct) auto

lemma string_includes_sublist: "string_includes s t \<longleftrightarrow> sublist t s"
  by (induction s) (auto simp: startsWith_prefix sublist_Cons_right)

lemma set_if_truthy_other: "key \<noteq> k \<Longrightarrow> set_if_truthy key v sp k = sp k"
  by (simp add: set_if_truthy_def split: option.splits)

lemma searchParams_of_no_url:
  "searchParams_of manager options = Inr sp \<Longrightarrow> sp ''url'' = None"
  by (auto simp: searchParams_of_def Let_def set_if_truthy_other
      split: option.splits if_splits sum.splits)

lemma url_filter_truthy:
  "u \<noteq> [] \<Longrightarrow> url_filter toLowerCase (Some u) results =
     filter (\<lambda>entry. case url entry of None \<Rightarrow> False
                      | Some eu \<Rightarrow> sublist (toLowerCase u) (toLowerCase eu)) results"
  by (simp add: url_filter_def string_includes_sublist cong: option.case_cong)

lemma url_filter_falsy:
  "u = None \<or> u = Some [] \<Longrightarrow> url_filter toLowerCase u results = results"
  by (auto simp: url_filter_def)

lemma in_set_apply_limit: "e \<in> set (apply_limit l xs) \<Longrightarrow> e \<in> set xs"
  by (auto simp: apply_limit_def split: option.splits if_splits dest: in_set_takeD)

text \<open>
  Claim C10, as stated, fails when the URL given is the empty string: \<^verbatim>\<open>--url ""\<close>
  supplies a URL, the guard \<^verbatim>\<open>if (options.url)\<close> takes it for none, no filter runs, and
  the entry without a URL stays in the results.
\<close>

theorem main_empty_url_keeps_all:
  "opt_url (tool_options (Some [])) = Some [] \<and>
   url (tool_entries ! 1) = None \<and>
   main ascii_toLowerCase tool_manager (tool_options (Some [])) = Formatted table tool_entries"
  by (simp add: main_def tool_manager_def tool_options_def searchParams_of_def
      set_if_truthy_def url_filter_def apply_limit_def tool_entries_def entry_of_def
      Descriptor.extend_def IndexEntry.fields_def)

text \<open>
  Claim C10, amended. In a run of the tool that reaches the search, whatever
  \<^verbatim>\<open>toLowerCase\<close> does, the parameters passed to \<^verbatim>\<open>searchEntries\<close> never have a
  \<^verbatim>\<open>url\<close> property. Whenever the URL option is a non-empty string, the results of the
  search are filtered afterwards, before the limit, to the entries whose URL, in lower
  case, contains the option, in lower case, as a substring, so that no entry without a URL
  is left. Whenever the URL option is absent or the empty string, no filter is applied.
\<close>

theorem main_url_post_filter:
  assumes "\<not> opt_help options"
    and "mgr_init manager = Inr ()"
    and "searchParams_of manager options = Inr searchParams"
    and "mgr_searchEntries manager searchParams = Inr results"
  shows "searchParams ''url'' = None \<and>
         (\<forall>u. opt_url options = Some u \<longrightarrow> u \<noteq> [] \<longrightarrow>
            main toLowerCase manager options =
              Formatted (case opt_format options of None \<Rightarrow> table | Some f \<Rightarrow> f)
                (apply_limit (opt_limit options)
                   (filter (\<lambda>entry. case url entry of None \<Rightarrow> False
                                    | Some eu \<Rightarrow> sublist (toLowerCase u) (toLowerCase eu))
                      results)) \<and>
            (\<forall>e \<in> set (apply_limit (opt_limit options)
                   (filter (\<lambda>entry. case url entry of None \<Rightarrow> False
                                    | Some eu \<Rightarrow> sublist (toLowerCase u) (toLowerCase eu))
                      results)). url e \<noteq> None)) \<and>
         (opt_url options = None \<or> opt_url options = Some [] \<longrightarrow>
            main toLowerCase manager options =
              Formatted (case opt_format options of None \<Rightarrow> table | Some f \<Rightarrow> f)
                (apply_limit (opt_limit options) results))"
proof (intro conjI allI impI)
  show "searchParams ''url'' = None"
    by (rule searchParams_of_no_url [OF assms(3)])
next
  fix u
  assume u: "opt_url options = Some u" "u \<noteq> []"
  show "main toLowerCase manager options =
      Formatted (case opt_format options of None \<Rightarrow> table | Some f \<Rightarrow> f)
        (apply_limit (opt_limit options)
           (filter (\<lambda>entry. case url entry of None \<Rightarrow> False
                            | Some eu \<Rightarrow> sublist (toLowerCase u) (toLowerCase eu))
              results))"
    using assms u by (simp add: main_def url_filter_truthy)
  show "\<forall>e \<in> set (apply_limit (opt_limit options)
           (filter (\<lambda>entry. case url entry of None \<Rightarrow> False
                            | Some eu \<Rightarrow> sublist (toLowerCase u) (toLowerCase eu))
              results)). url e \<noteq> None"
    by (auto dest!: in_set_apply_limit split: option.splits)
next
  assume "opt_url options = None \<or> opt_url options = Some []"
  then show "main toLowerCase manager options =
      Formatted (case opt_format options of None \<Rightarrow> table | Some f \<Rightarrow> f)
        (apply_limit (opt_limit options) results)"
    using assms by (simp add: main_def url_filter_falsy)
qed

text \<open>On the example: \<^verbatim>\<open>--url PATIENT\<close> keeps the one entry whose URL contains
  \<^verbatim>\<open>patient\<close> in any case, and drops the entry without a URL; without \<^verbatim>\<open>--url\<close> the three
  entries are shown.\<close>

theorem main_url_post_filter_witness:
  "searchParams_of tool_manager (tool_options (Some ''PATIENT'')) = Inr Map.empty \<and>
   main ascii_toLowerCase tool_manager (tool_options (Some ''PATIENT'')) =
     Formatted table
       [entry ''http://hl7.org/fhir/StructureDefinition/Patient'' ''StructureDefinition'' ''resource''] \<and>
   main ascii_toLowerCase tool_manager (tool_options None) = Formatted table tool_entries"
proof -
  have sp: "searchParams_of tool_manager (tool_options u) = Inr Map.empty" for u
    by (simp add: searchParams_of_def tool_options_def set_if_truthy_def)
  have nh: "\<not> opt_help (tool_options u)" for u
    by (simp add: tool_options_def)
  have ini: "mgr_init tool_manager = Inr ()"
    by (simp add: tool_manager_def)
  have se: "mgr_searchEntries tool_manager Map.empty = Inr tool_entries"
    by (simp add: tool_manager_def)
  have flt: "filter (\<lambda>entry. case url entry of None \<Rightarrow> False
               | Some eu \<Rightarrow> string_includes (ascii_toLowerCase eu) (ascii_toLowerCase ''PATIENT''))
        tool_entries =
     [entry ''http://hl7.org/fhir/StructureDefinition/Patient'' ''StructureDefinition'' ''resource'']"
    by (simp add: tool_entries_def entry_def entry_of_def descr_def Descriptor.extend_def
        IndexEntry.fields_def ascii_toLowerCase_def lower_char_def)
  note th1 = main_url_post_filter [where toLowerCase = ascii_toLowerCase,
      OF nh [of "Some ''PATIENT''"] ini sp [of "Some ''PATIENT''"] se]
  note th2 = main_url_post_filter [where toLowerCase = ascii_toLowerCase,
      OF nh [of None] ini sp [of None] se]
  have run1: "main ascii_toLowerCase tool_manager (tool_options (Some ''PATIENT'')) =
     Formatted table
       [entry ''http://hl7.org/fhir/StructureDefinition/Patient'' ''StructureDefinition'' ''resource'']"
    using th1 [THEN conjunct2, THEN conjunct1, rule_format, of "''PATIENT''", THEN conjunct1] flt
    by (simp add: tool_options_def apply_limit_def string_includes_sublist
        cong: option.case_cong)
  have run2: "main ascii_toLowerCase tool_manager (tool_options None) = Formatted table tool_entries"
    using th2 [THEN conjunct2, THEN conjunct2]
    by (simp add: tool_options_def apply_limit_def)
  show ?thesis
    using sp run1 run2 by simp
qed

end
